theory Spec2Isabelle
  imports Complex_Main
begin

section \<open>Values, dictionaries and Python's string operators\<close>

text \<open>
  The values that occur in a \<^verbatim>\<open>describe_auto_ml_job\<close> response: strings, integers,
  booleans, lists and nested dictionaries; a value of any other class (a
  \<^verbatim>\<open>datetime\<close>) is kept by its \<^verbatim>\<open>repr\<close>. A dictionary keeps its items in order;
  \<^verbatim>\<open>d[k]\<close> reads the first item with key \<open>k\<close>.
\<close>

datatype pyval =
    PStr string
  | PInt int
  | PBool bool
  | PList "pyval list"
  | PDict "(string \<times> pyval) list"
  | PObject string

datatype py_error =
    KeyError string
  | LabelKeyError
  | TypeError
  | AttributeError
  | IndexError
  | ValueError
  | UnicodeDecodeError
  | UnicodeEncodeError
  | ServiceError string

text \<open>\<^verbatim>\<open>v[k]\<close> with a string key: a missing key raises KeyError; a value that is no
  dictionary cannot be indexed by a string.\<close>

fun getitem :: "pyval \<Rightarrow> string \<Rightarrow> py_error + pyval" where
  "getitem (PDict kvs) k = (case map_of kvs k of None \<Rightarrow> Inl (KeyError k) | Some v \<Rightarrow> Inr v)"
| "getitem v k = Inl TypeError"

text \<open>\<^verbatim>\<open>sub in s\<close> on two strings: \<open>sub\<close> occurs in \<open>s\<close> as a contiguous run.\<close>

fun startswith :: "string \<Rightarrow> string \<Rightarrow> bool" where
  "startswith s [] = True"
| "startswith [] (c # sub) = False"
| "startswith (d # s) (c # sub) = (d = c \<and> startswith s sub)"

fun str_contains :: "string \<Rightarrow> string \<Rightarrow> bool" where
  "str_contains [] sub = (sub = [])"
| "str_contains (d # s) sub = (startswith (d # s) sub \<or> str_contains s sub)"

text \<open>\<^verbatim>\<open>v in s\<close> where \<open>s\<close> is a string: a left operand that is not a string raises
  TypeError.\<close>

fun py_in_str :: "pyval \<Rightarrow> string \<Rightarrow> py_error + bool" where
  "py_in_str (PStr sub) s = Inr (str_contains s sub)"
| "py_in_str v s = Inl TypeError"

text \<open>\<^verbatim>\<open>v in (a, b)\<close> on a tuple of two strings compares with \<open>==\<close>.\<close>

definition py_in_pair :: "pyval \<Rightarrow> string \<times> string \<Rightarrow> bool" where
  "py_in_pair v t = (v = PStr (fst t) \<or> v = PStr (snd t))"

text \<open>\<^verbatim>\<open>s.rstrip(chars)\<close>: drops from the right end every character that occurs in
  \<open>chars\<close>.\<close>

definition rstrip_chars :: "string \<Rightarrow> string \<Rightarrow> string" where
  "rstrip_chars chars s = rev (dropWhile (\<lambda>c. c \<in> set chars) (rev s))"

text \<open>Only a string has the method; on another value the attribute lookup raises.\<close>

fun py_rstrip :: "pyval \<Rightarrow> string \<Rightarrow> py_error + pyval" where
  "py_rstrip (PStr s) chars = Inr (PStr (rstrip_chars chars s))"
| "py_rstrip v chars = Inl AttributeError"

section \<open>The AutoPilot notebook: tracking the progress of the job\<close>

text \<open>
  What a cell does to the outside: a call of \<^verbatim>\<open>sm.describe_auto_ml_job\<close>, a sleep of
  so many seconds, a \<^verbatim>\<open>print\<close> of its arguments.
\<close>

datatype event = Describe | Sleep nat | Print "pyval list"

text \<open>The remote service: the response to the \<open>n\<close>-th describe call (counted from 0).\<close>

type_synonym service = "nat \<Rightarrow> pyval"

text \<open>The notebook's variables \<^verbatim>\<open>job\<close>, \<^verbatim>\<open>job_status\<close>, \<^verbatim>\<open>job_sec_status\<close>, the
  number of describe calls issued so far, and the events so far, oldest first.\<close>

record state =
  job :: pyval
  job_status :: pyval
  job_sec_status :: pyval
  calls :: nat
  trace :: "event list"

text \<open>
  \<^verbatim>\<open>
  job = sm.describe_auto_ml_job(AutoMLJobName=auto_ml_job_name)
  job_status = job['AutoMLJobStatus']
  job_sec_status = job['AutoMLJobSecondaryStatus']
  \<close>
\<close>

definition describe_job :: "service \<Rightarrow> state \<Rightarrow> py_error + state" where
  "describe_job svc s =
     (let j = svc (calls s);
          s1 = s\<lparr>job := j, calls := Suc (calls s), trace := trace s @ [Describe]\<rparr>
      in case getitem j ''AutoMLJobStatus'' of
           Inl e \<Rightarrow> Inl e
         | Inr st \<Rightarrow>
             (case getitem j ''AutoMLJobSecondaryStatus'' of
                Inl e \<Rightarrow> Inl e
              | Inr sec \<Rightarrow> Inr (s1\<lparr>job_status := st, job_sec_status := sec\<rparr>)))"

definition emit :: "event list \<Rightarrow> state \<Rightarrow> state" where
  "emit es s = s\<lparr>trace := trace s @ es\<rparr>"

text \<open>
  The loop condition
  \<^verbatim>\<open>job_status in ('InProgress') and job_sec_status in (phase)\<close>.
  The parentheses hold a string, not a tuple, so both tests are substring tests;
  \<^verbatim>\<open>and\<close> does not evaluate its right operand when the left one is false.
\<close>

definition loop_cond :: "string \<Rightarrow> state \<Rightarrow> py_error + bool" where
  "loop_cond phase s =
     (case py_in_str (job_status s) ''InProgress'' of
        Inl e \<Rightarrow> Inl e
      | Inr b \<Rightarrow> if b then py_in_str (job_sec_status s) phase else Inr False)"

text \<open>
  The loop body:
  \<^verbatim>\<open>
        job = sm.describe_auto_ml_job(AutoMLJobName=auto_ml_job_name)
        job_status = job['AutoMLJobStatus']
        job_sec_status = job['AutoMLJobSecondaryStatus']
        print(job_status, job_sec_status)
        sleep(30)
  \<close>
\<close>

definition loop_body :: "service \<Rightarrow> state \<Rightarrow> py_error + state" where
  "loop_body svc s =
     (case describe_job svc s of
        Inl e \<Rightarrow> Inl e
      | Inr s' \<Rightarrow> Inr (emit [Print [job_status s', job_sec_status s'], Sleep 30] s'))"

text \<open>The \<^verbatim>\<open>while\<close> loop. It has no bound; a run that never leaves it is \<open>None\<close>.\<close>

partial_function (option) poll_while :: "string \<Rightarrow> service \<Rightarrow> state \<Rightarrow> (py_error + state) option" where
  "poll_while phase svc s =
     (case loop_cond phase s of
        Inl e \<Rightarrow> Some (Inl e)
      | Inr b \<Rightarrow>
          if b then
            (case loop_body svc s of
               Inl e \<Rightarrow> Some (Inl e)
             | Inr s' \<Rightarrow> poll_while phase svc s')
          else Some (Inr s))"

text \<open>
  The part the three cells share:
  \<^verbatim>\<open>
  if job_status not in ('Stopped', 'Failed'):
      while job_status in ('InProgress') and job_sec_status in (phase):
          ...
      print(message)

  print(job)
  \<close>
\<close>

definition gated_poll :: "string \<Rightarrow> string \<Rightarrow> service \<Rightarrow> state \<Rightarrow> (py_error + state) option" where
  "gated_poll phase message svc s =
     (if \<not> py_in_pair (job_status s) (''Stopped'', ''Failed'') then
        (case poll_while phase svc s of
           None \<Rightarrow> None
         | Some (Inl e) \<Rightarrow> Some (Inl e)
         | Some (Inr s') \<Rightarrow>
             Some (Inr (emit [Print [job s']] (emit [Print [PStr message]] s'))))
      else Some (Inr (emit [Print [job s]] s)))"

text \<open>The cell under "Analyzing Data": it sleeps 3 seconds first and does not print the
  two statuses before the test.\<close>

definition analyzing_data_cell :: "service \<Rightarrow> state \<Rightarrow> (py_error + state) option" where
  "analyzing_data_cell svc s =
     (case describe_job svc (emit [Sleep 3] s) of
        Inl e \<Rightarrow> Some (Inl e)
      | Inr s1 \<Rightarrow> gated_poll ''AnalyzingData'' ''Data analysis complete'' svc s1)"

text \<open>The cells under "Feature Engineering" and "Model Training and Tuning": they print
  \<^verbatim>\<open>job_status\<close> and \<^verbatim>\<open>job_sec_status\<close> before the test.\<close>

definition feature_engineering_cell :: "service \<Rightarrow> state \<Rightarrow> (py_error + state) option" where
  "feature_engineering_cell svc s =
     (case describe_job svc s of
        Inl e \<Rightarrow> Some (Inl e)
      | Inr s1 \<Rightarrow>
          gated_poll ''FeatureEngineering'' ''Feature engineering complete'' svc
            (emit [Print [job_status s1], Print [job_sec_status s1]] s1))"

definition model_tuning_cell :: "service \<Rightarrow> state \<Rightarrow> (py_error + state) option" where
  "model_tuning_cell svc s =
     (case describe_job svc s of
        Inl e \<Rightarrow> Some (Inl e)
      | Inr s1 \<Rightarrow>
          gated_poll ''ModelTuning'' ''Model tuning complete'' svc
            (emit [Print [job_status s1], Print [job_sec_status s1]] s1))"


text \<open>The three polling cells by name, with the phase each one waits on and the message
  it prints after its loop.\<close>

datatype polling_cell_id = AnalyzingDataCell | FeatureEngineeringCell | ModelTuningCell

fun polling_cell :: "polling_cell_id \<Rightarrow> service \<Rightarrow> state \<Rightarrow> (py_error + state) option" where
  "polling_cell AnalyzingDataCell = analyzing_data_cell"
| "polling_cell FeatureEngineeringCell = feature_engineering_cell"
| "polling_cell ModelTuningCell = model_tuning_cell"

fun target_phase :: "polling_cell_id \<Rightarrow> string" where
  "target_phase AnalyzingDataCell = ''AnalyzingData''"
| "target_phase FeatureEngineeringCell = ''FeatureEngineering''"
| "target_phase ModelTuningCell = ''ModelTuning''"


text \<open>The events of a cell before its \<^verbatim>\<open>if\<close>, for a first description with the two
  statuses \<open>st\<close> and \<open>sec\<close>.\<close>

fun opening_events :: "polling_cell_id \<Rightarrow> pyval \<Rightarrow> pyval \<Rightarrow> event list" where
  "opening_events AnalyzingDataCell st sec = [Sleep 3, Describe]"
| "opening_events FeatureEngineeringCell st sec = [Describe, Print [st], Print [sec]]"
| "opening_events ModelTuningCell st sec = [Describe, Print [st], Print [sec]]"

subsection \<open>Descriptions, as the theorems speak of them\<close>









text \<open>The status and secondary-status values that the notebook names, in its code or in
  the output of its recorded run.\<close>

definition status_values_named_in_notebook :: "string list" where
  "status_values_named_in_notebook =
     [''InProgress'', ''Stopped'', ''Failed'', ''AnalyzingData'', ''FeatureEngineering'',
      ''ModelTuning'']"

text \<open>A service that answers every call with the same description, and one that answers
  with the descriptions of a list and then forever with a last one.\<close>

definition constant_service :: "pyval \<Rightarrow> service" where
  "constant_service j = (\<lambda>n. j)"


text \<open>The notebook before its first polling cell: no describe call yet, nothing printed.
  The three variables are not bound yet; every cell assigns them before it reads them,
  so the values they have here are never read.\<close>

definition initial_state :: state where
  "initial_state =
     \<lparr>job = PDict [], job_status = PDict [], job_sec_status = PDict [], calls = 0, trace = []\<rparr>"

section \<open>The AutoPilot notebook: copying the generated notebooks\<close>

text \<open>
  \<^verbatim>\<open>
  generated_resources = job['AutoMLJobArtifacts']['DataExplorationNotebookLocation']
      .rstrip('notebooks/SageMakerAutopilotDataExplorationNotebook.ipynb')
  \<close>
  There is no \<^verbatim>\<open>try\<close> around it: an error of a lookup is the result of the cell.
\<close>

definition generated_resources :: "pyval \<Rightarrow> py_error + pyval" where
  "generated_resources j =
     (case getitem j ''AutoMLJobArtifacts'' of
        Inl e \<Rightarrow> Inl e
      | Inr artifacts \<Rightarrow>
          (case getitem artifacts ''DataExplorationNotebookLocation'' of
             Inl e \<Rightarrow> Inl e
           | Inr location \<Rightarrow>
               py_rstrip location ''notebooks/SageMakerAutopilotDataExplorationNotebook.ipynb''))"

definition copy_notebooks_cell :: "state \<Rightarrow> py_error + pyval" where
  "copy_notebooks_cell s = generated_resources (job s)"

text \<open>The description that the notebook's recorded run printed; the request ids and
  headers of the response metadata are left out and the failure reason is cut after its
  second sentence.\<close>

definition recorded_failed_job_items :: "(string \<times> pyval) list" where
  "recorded_failed_job_items =
      [(''AutoMLJobName'', PStr ''automl-dm-23-00-33-17''),
       (''AutoMLJobArn'',
          PStr ''arn:aws:sagemaker:us-east-1:835319576252:automl-job/automl-dm-23-00-33-17''),
       (''InputDataConfig'',
          PList [PDict
            [(''DataSource'', PDict [(''S3DataSource'', PDict
                [(''S3DataType'', PStr ''S3Prefix''),
                 (''S3Uri'', PStr ''s3://sagemaker-us-east-1-835319576252/data/amazon_reviews_us_Digital_Software_v1_00_train.csv'')])]),
             (''TargetAttributeName'', PStr ''is_positive_sentiment'')]]),
       (''OutputDataConfig'',
          PDict [(''S3OutputPath'',
            PStr ''s3://sagemaker-us-east-1-835319576252/models/autopilot'')]),
       (''RoleArn'',
          PStr ''arn:aws:iam::835319576252:role/service-role/AmazonSageMaker-ExecutionRole-20191006T135881''),
       (''AutoMLJobConfig'',
          PDict [(''CompletionCriteria'', PDict
            [(''MaxCandidates'', PInt 3),
             (''MaxRuntimePerTrainingJobInSeconds'', PInt 600),
             (''MaxAutoMLJobRuntimeInSeconds'', PInt 3600)])]),
       (''CreationTime'',
          PObject ''datetime.datetime(2020, 3, 23, 0, 33, 17, 414000, tzinfo=tzlocal())''),
       (''EndTime'',
          PObject ''datetime.datetime(2020, 3, 23, 0, 36, 32, 767000, tzinfo=tzlocal())''),
       (''LastModifiedTime'',
          PObject ''datetime.datetime(2020, 3, 23, 0, 36, 32, 799000, tzinfo=tzlocal())''),
       (''FailureReason'',
          PStr ''Could not complete the data builder processing job. The AutoML Job cannot continue.''),
       (''AutoMLJobStatus'', PStr ''Failed''),
       (''AutoMLJobSecondaryStatus'', PStr ''Failed''),
       (''GenerateCandidateDefinitionsOnly'', PBool False),
       (''ResponseMetadata'', PDict [(''HTTPStatusCode'', PInt 200), (''RetryAttempts'', PInt 0)])]"

definition recorded_failed_job :: pyval where
  "recorded_failed_job = PDict recorded_failed_job_items"

section \<open>The two notebooks as sequences of operations\<close>








section \<open>The status values the control flow compares against\<close>

text \<open>The string literals of the three \<^verbatim>\<open>if\<close> tests and the three \<^verbatim>\<open>while\<close> conditions,
  cell by cell.\<close>

fun compared_values :: "polling_cell_id \<Rightarrow> string list" where
  "compared_values c = [''Stopped'', ''Failed'', ''InProgress'', target_phase c]"

definition all_compared_values :: "string list" where
  "all_compared_values =
     concat (map compared_values [AnalyzingDataCell, FeatureEngineeringCell, ModelTuningCell])"

text \<open>Modelled from the spec: the job status/sub-status enum, whose declaration belongs to
  the remote service and is not in the repository. The spec writes it as
  queued/analyzing/feature-engineering/tuning/failed/stopped/completed.\<close>

definition spec_status_enum :: "string list" where
  "spec_status_enum =
     [''queued'', ''analyzing'', ''feature-engineering'', ''tuning'', ''failed'', ''stopped'',
      ''completed'']"

text \<open>The spec writes the names in lower case, with a hyphen between words and without
  the words Data and Model. A value of the code stands for a name of the enum when the
  name, without its hyphens, occurs in the value written in lower case.\<close>

definition lower_char :: "char \<Rightarrow> char" where
  "lower_char c =
     (case map_of (zip ''ABCDEFGHIJKLMNOPQRSTUVWXYZ'' ''abcdefghijklmnopqrstuvwxyz'') c of
        Some l \<Rightarrow> l
      | None \<Rightarrow> c)"

definition stands_for :: "string \<Rightarrow> string \<Rightarrow> bool" where
  "stands_for v name =
     str_contains (map lower_char v) (filter (\<lambda>c. c \<noteq> CHR ''-'') name)"

definition in_spec_enum :: "string \<Rightarrow> bool" where
  "in_spec_enum v = list_ex (stands_for v) spec_status_enum"

section \<open>The AutoPilot notebook: invoking the endpoint\<close>

















section \<open>Loading a dataset\<close>

text \<open>A pandas table by columns: the row index and, for each column, its label and its
  values from the first row to the last. A column of a table taken alone is a series.\<close>

datatype label = IntLabel int | StrLabel string

record 'a dataframe =
  df_index :: "label list"
  df_columns :: "(label \<times> 'a list) list"

record 'a series =
  s_name :: label
  s_index :: "label list"
  s_values :: "'a list"

text \<open>\<^verbatim>\<open>data.iloc[:,i]\<close> and \<^verbatim>\<open>data.columns[i]\<close> for \<open>i \<ge> 0\<close>: a position past the last
  column raises IndexError.\<close>

definition iloc_column :: "'a dataframe \<Rightarrow> nat \<Rightarrow> py_error + 'a series" where
  "iloc_column data i =
     (if i < length (df_columns data)
      then Inr \<lparr>s_name = fst (df_columns data ! i), s_index = df_index data,
                s_values = snd (df_columns data ! i)\<rparr>
      else Inl IndexError)"

definition column_label :: "'a dataframe \<Rightarrow> nat \<Rightarrow> py_error + label" where
  "column_label data i =
     (if i < length (df_columns data) then Inr (fst (df_columns data ! i)) else Inl IndexError)"

text \<open>\<^verbatim>\<open>data.drop(l, axis=1)\<close>: a new table without the columns labelled \<open>l\<close>, all of them;
  KeyError when there is none.\<close>

definition drop_column :: "label \<Rightarrow> 'a dataframe \<Rightarrow> py_error + 'a dataframe" where
  "drop_column l data =
     (if l \<in> set (map fst (df_columns data))
      then Inr (data\<lparr>df_columns := filter (\<lambda>c. fst c \<noteq> l) (df_columns data)\<rparr>)
      else Inl LabelKeyError)"

text \<open>\<^verbatim>\<open>features.columns = names\<close>: as many names as columns, or ValueError.\<close>

definition set_columns :: "label list \<Rightarrow> 'a dataframe \<Rightarrow> py_error + 'a dataframe" where
  "set_columns names data =
     (if length names = length (df_columns data)
      then Inr (data\<lparr>df_columns := zip names (map snd (df_columns data))\<rparr>)
      else Inl ValueError)"

text \<open>
  The body both notebooks share after the table is read:
  \<^verbatim>\<open>
    labels = data.iloc[:,0]
    features = data.drop(data.columns[0], axis=1)

    if header==None:
        new_column_names = list(range(0, len(features.columns)))
        features.columns = new_column_names

    return features, labels
  \<close>
\<close>

definition labels_and_features ::
    "nat option \<Rightarrow> 'a dataframe \<Rightarrow> py_error + 'a dataframe \<times> 'a series" where
  "labels_and_features header data =
     (case iloc_column data 0 of
        Inl e \<Rightarrow> Inl e
      | Inr labels \<Rightarrow>
          (case column_label data 0 of
             Inl e \<Rightarrow> Inl e
           | Inr l0 \<Rightarrow>
               (case drop_column l0 data of
                  Inl e \<Rightarrow> Inl e
                | Inr features \<Rightarrow>
                    if header = None then
                      (let new_column_names =
                             map (\<lambda>n. IntLabel (int n)) [0..<length (df_columns features)]
                       in case set_columns new_column_names features of
                            Inl e \<Rightarrow> Inl e
                          | Inr renamed \<Rightarrow> Inr (renamed, labels))
                    else Inr (features, labels))))"

text \<open>\<^verbatim>\<open>pd.read_csv(path, sep=sep, header=header)\<close> is the library's: the file system and
  the parser are a parameter.\<close>

type_synonym 'a read_csv = "string \<Rightarrow> string \<Rightarrow> nat option \<Rightarrow> py_error + 'a dataframe"

text \<open>\<^verbatim>\<open>load_dataset\<close> of the AutoPilot notebook.\<close>

definition load_dataset ::
    "'a read_csv \<Rightarrow> string \<Rightarrow> string \<Rightarrow> nat option \<Rightarrow> py_error + 'a dataframe \<times> 'a series" where
  "load_dataset read_csv path sep header =
     (case read_csv path sep header of
        Inl e \<Rightarrow> Inl e
      | Inr data \<Rightarrow> labels_and_features header data)"

text \<open>The list comprehension \<^verbatim>\<open>[pd.read_csv(f, sep=sep, header=header) for f in files]\<close>:
  the first error ends it.\<close>

fun read_each :: "'a read_csv \<Rightarrow> string \<Rightarrow> nat option \<Rightarrow> string list \<Rightarrow> py_error + 'a dataframe list" where
  "read_each read_csv sep header [] = Inr []"
| "read_each read_csv sep header (f # fs) =
     (case read_csv f sep header of
        Inl e \<Rightarrow> Inl e
      | Inr d \<Rightarrow>
          (case read_each read_csv sep header fs of
             Inl e \<Rightarrow> Inl e
           | Inr ds \<Rightarrow> Inr (d # ds)))"

text \<open>\<^verbatim>\<open>load_dataset\<close> of the XGBoost notebook: it reads every file that
  \<^verbatim>\<open>glob.glob('{}/*.csv'.format(path))\<close> lists and joins the tables with
  \<^verbatim>\<open>pd.concat(..., ignore_index = True)\<close>; both are the library's and parameters here.\<close>

definition load_dataset_builtin ::
    "(string \<Rightarrow> string list) \<Rightarrow> 'a read_csv \<Rightarrow> ('a dataframe list \<Rightarrow> py_error + 'a dataframe) \<Rightarrow>
     string \<Rightarrow> string \<Rightarrow> nat option \<Rightarrow> py_error + 'a dataframe \<times> 'a series" where
  "load_dataset_builtin glob read_csv concat_frames path sep header =
     (case read_each read_csv sep header (glob (path @ ''/*.csv'')) of
        Inl e \<Rightarrow> Inl e
      | Inr frames \<Rightarrow>
          (case concat_frames frames of
             Inl e \<Rightarrow> Inl e
           | Inr data \<Rightarrow> labels_and_features header data))"

section \<open>The XGBoost notebook: probabilities to classes\<close>

text \<open>An element of the prediction array: a finite value, an infinity or NaN. Comparing
  two floating-point values is exact, so a finite value is taken as the real number it
  denotes.\<close>

datatype npfloat = Finite real | PosInf | NegInf | NaN

text \<open>\<^verbatim>\<open>x > y\<close> on two elements: false whenever one of them is NaN.\<close>

fun np_greater :: "npfloat \<Rightarrow> npfloat \<Rightarrow> bool" where
  "np_greater NaN y = False"
| "np_greater x NaN = False"
| "np_greater (Finite a) (Finite b) = (b < a)"
| "np_greater (Finite a) NegInf = True"
| "np_greater (Finite a) PosInf = False"
| "np_greater PosInf PosInf = False"
| "np_greater PosInf y = True"
| "np_greater NegInf y = False"

text \<open>\<^verbatim>\<open>preds_test_0_or_1 = np.where(preds_test > 0.5, 1, 0)\<close> on the one-dimensional
  array that \<^verbatim>\<open>predict\<close> returns.\<close>

definition preds_test_0_or_1 :: "npfloat list \<Rightarrow> int list" where
  "preds_test_0_or_1 preds_test =
     map (\<lambda>p. if np_greater p (Finite 0.5) then 1 else 0) preds_test"

section \<open>The substring test\<close>

text \<open>\<open>str_contains s sub\<close> is true exactly when \<open>sub\<close> is a contiguous part of \<open>s\<close>; the
  empty string is part of every string.\<close>

lemma startswith_iff: "startswith s sub \<longleftrightarrow> (\<exists>post. s = sub @ post)"
proof (induction s sub rule: startswith.induct)
  case (1 s)
  show ?case by simp
next
  case (2 c sub)
  show ?case by simp
next
  case (3 d s c sub)
  then show ?case by (simp add: Cons_eq_append_conv)
qed

lemma str_contains_iff: "str_contains s sub \<longleftrightarrow> (\<exists>pre post. s = pre @ sub @ post)"
proof (induction s)
  case Nil
  then show ?case by auto
next
  case (Cons d s)
  show ?case
  proof
    assume "str_contains (d # s) sub"
    then consider "startswith (d # s) sub" | "str_contains s sub"
      by auto
    then show "\<exists>pre post. d # s = pre @ sub @ post"
    proof cases
      case 1
      then obtain post where "d # s = sub @ post"
        using startswith_iff by blast
      then have "d # s = [] @ sub @ post"
        by simp
      then show ?thesis
        by blast
    next
      case 2
      then obtain pre post where "s = pre @ sub @ post"
        using Cons.IH by blast
      then have "d # s = (d # pre) @ sub @ post"
        by simp
      then show ?thesis
        by blast
    qed
  next
    assume "\<exists>pre post. d # s = pre @ sub @ post"
    then obtain pre post where eq: "d # s = pre @ sub @ post"
      by blast
    show "str_contains (d # s) sub"
    proof (cases pre)
      case Nil
      then have "startswith (d # s) sub"
        using eq startswith_iff by auto
      then show ?thesis
        by simp
    next
      case (Cons a pre')
      then have "s = pre' @ sub @ post"
        using eq by simp
      then have "str_contains s sub"
        using Cons.IH by blast
      then show ?thesis
        by simp
    qed
  qed
qed

text \<open>On the values the notebook names, the substring tests of the loop condition are
  equality tests.\<close>

lemma substring_test_on_notebook_values:
  "list_all (\<lambda>st. str_contains ''InProgress'' st \<longleftrightarrow> st = ''InProgress'')
     status_values_named_in_notebook"
  "list_all (\<lambda>c. list_all (\<lambda>sec. str_contains (target_phase c) sec \<longleftrightarrow> sec = target_phase c)
     status_values_named_in_notebook)
     [AnalyzingDataCell, FeatureEngineeringCell, ModelTuningCell]"
  by code_simp+

section \<open>The polling loop: when it ends and when it does not\<close>


















text \<open>A loop that returns without an error returns in a state on which its condition
  is false.\<close>

lemma poll_while_returns_condition_false:
  assumes run: "poll_while phase svc s = Some r"
  shows "\<forall>s'. r = Inr s' \<longrightarrow> loop_cond phase s' = Inr False"
proof (rule poll_while.raw_induct
    [where P = "\<lambda>ph sv t r. \<forall>s'. r = Inr s' \<longrightarrow> loop_cond ph s' = Inr False", OF _ run])
  fix poll ph sv t r'
  assume IH: "\<And>ph sv t r. poll ph sv t = Some r \<Longrightarrow>
                \<forall>s'. r = Inr s' \<longrightarrow> loop_cond ph s' = Inr False"
    and unfolded:
      "(case loop_cond ph t of
          Inl e \<Rightarrow> Some (Inl e)
        | Inr b \<Rightarrow>
            if b then (case loop_body sv t of Inl e \<Rightarrow> Some (Inl e) | Inr s' \<Rightarrow> poll ph sv s')
            else Some (Inr t)) = Some r'"
  show "\<forall>s'. r' = Inr s' \<longrightarrow> loop_cond ph s' = Inr False"
  proof (cases "loop_cond ph t")
    case (Inl e)
    then show ?thesis
      using unfolded by auto
  next
    case (Inr b)
    show ?thesis
    proof (cases b)
      case False
      then show ?thesis
        using unfolded Inr by auto
    next
      case True
      show ?thesis
      proof (cases "loop_body sv t")
        case (Inl e)
        then show ?thesis
          using unfolded \<open>loop_cond ph t = Inr b\<close> True by auto
      next
        case (Inr t1)
        then have "poll ph sv t1 = Some r'"
          using unfolded \<open>loop_cond ph t = Inr b\<close> True by simp
        then show ?thesis
          by (rule IH)
      qed
    qed
  qed
qed


lemma describe_job_fields:
  assumes "getitem (svc (calls s)) ''AutoMLJobStatus'' = Inr st"
    and "getitem (svc (calls s)) ''AutoMLJobSecondaryStatus'' = Inr sec"
  shows "describe_job svc s =
           Inr \<lparr>job = svc (calls s), job_status = st, job_sec_status = sec,
                calls = Suc (calls s), trace = trace s @ [Describe]\<rparr>"
  using assms by (simp add: describe_job_def Let_def)


lemma gated_poll_stopped_or_failed:
  assumes "job_status s = PStr st" and "st = ''Stopped'' \<or> st = ''Failed''"
  shows "gated_poll phase message svc s = Some (Inr (emit [Print [job s]] s))"
  using assms by (auto simp: gated_poll_def py_in_pair_def)




lemma polling_cell_stopped_or_failed:
  assumes st: "getitem (svc (calls s)) ''AutoMLJobStatus'' = Inr (PStr st)"
    and sec: "getitem (svc (calls s)) ''AutoMLJobSecondaryStatus'' = Inr sec"
    and halted: "st = ''Stopped'' \<or> st = ''Failed''"
  shows "polling_cell c svc s =
           Some (Inr \<lparr>job = svc (calls s), job_status = PStr st, job_sec_status = sec,
                      calls = Suc (calls s),
                      trace = trace s @ opening_events c (PStr st) sec @
                        [Print [svc (calls s)]]\<rparr>)"
proof (cases c)
  case AnalyzingDataCell
  have "describe_job svc (emit [Sleep 3] s) =
      Inr \<lparr>job = svc (calls s), job_status = PStr st, job_sec_status = sec,
           calls = Suc (calls s), trace = (trace s @ [Sleep 3]) @ [Describe]\<rparr>"
    using describe_job_fields [of svc "emit [Sleep 3] s" "PStr st" sec] st sec
    by (simp add: emit_def)
  then show ?thesis
    using halted AnalyzingDataCell
    by (simp add: analyzing_data_cell_def gated_poll_stopped_or_failed [of _ st] emit_def)
next
  case FeatureEngineeringCell
  then show ?thesis
    using halted describe_job_fields [of svc s "PStr st" sec] st sec
    by (simp add: feature_engineering_cell_def gated_poll_stopped_or_failed [of _ st] emit_def)
next
  case ModelTuningCell
  then show ?thesis
    using halted describe_job_fields [of svc s "PStr st" sec] st sec
    by (simp add: model_tuning_cell_def gated_poll_stopped_or_failed [of _ st] emit_def)
qed







section \<open>The polling cells\<close>



text \<open>
  C4. When the first description a polling cell obtains has the status \<open>Stopped\<close> or
  \<open>Failed\<close>, the cell enters no loop iteration, issues no further describe call, takes no
  corrective action and only prints the status strings and the description.

  The cell returns after its one describe call; before that call it does nothing but
  the 3 seconds of sleep of the first cell, after it every event is a print of the
  status, of the secondary status or of the description, the description last.
\<close>

theorem halted_job_is_only_printed:
  assumes "getitem (svc (calls s)) ''AutoMLJobStatus'' = Inr (PStr st)"
    and "getitem (svc (calls s)) ''AutoMLJobSecondaryStatus'' = Inr sec"
    and "st = ''Stopped'' \<or> st = ''Failed''"
  shows "\<exists>s' before after.
           polling_cell c svc s = Some (Inr s')
           \<and> job s' = svc (calls s) \<and> calls s' = Suc (calls s)
           \<and> trace s' = trace s @ before @ [Describe] @ after
           \<and> set before \<subseteq> {Sleep 3}
           \<and> set after \<subseteq> {Print [PStr st], Print [sec], Print [svc (calls s)]}
           \<and> last after = Print [svc (calls s)]"
proof -
  let ?s' = "\<lparr>job = svc (calls s), job_status = PStr st, job_sec_status = sec,
              calls = Suc (calls s),
              trace = trace s @ opening_events c (PStr st) sec @ [Print [svc (calls s)]]\<rparr>"
  have run: "polling_cell c svc s = Some (Inr ?s')"
    using assms by (rule polling_cell_stopped_or_failed [of svc s st sec c])
  show ?thesis
  proof (cases c)
    case AnalyzingDataCell
    with run show ?thesis
      by (intro exI [of _ ?s'] exI [of _ "[Sleep 3]"] exI [of _ "[Print [svc (calls s)]]"])
        simp
  next
    case FeatureEngineeringCell
    with run show ?thesis
      by (intro exI [of _ ?s'] exI [of _ "[]"]
          exI [of _ "[Print [PStr st], Print [sec], Print [svc (calls s)]]"]) simp
  next
    case ModelTuningCell
    with run show ?thesis
      by (intro exI [of _ ?s'] exI [of _ "[]"]
          exI [of _ "[Print [PStr st], Print [sec], Print [svc (calls s)]]"]) simp
  qed
qed

theorem halted_job_is_only_printed_witness:
  "getitem (constant_service recorded_failed_job (calls initial_state)) ''AutoMLJobStatus''
     = Inr (PStr ''Failed'')
   \<and> getitem (constant_service recorded_failed_job (calls initial_state))
       ''AutoMLJobSecondaryStatus'' = Inr (PStr ''Failed'')
   \<and> (\<exists>s' before after.
         polling_cell FeatureEngineeringCell (constant_service recorded_failed_job)
           initial_state = Some (Inr s')
         \<and> job s' = recorded_failed_job \<and> calls s' = 1
         \<and> trace s' = before @ [Describe] @ after
         \<and> set before \<subseteq> {Sleep 3}
         \<and> set after \<subseteq> {Print [PStr ''Failed''], Print [recorded_failed_job]}
         \<and> last after = Print [recorded_failed_job])"
proof -
  have a: "getitem (constant_service recorded_failed_job (calls initial_state))
      ''AutoMLJobStatus'' = Inr (PStr ''Failed'')"
    by (simp add: constant_service_def recorded_failed_job_def recorded_failed_job_items_def)
  have b: "getitem (constant_service recorded_failed_job (calls initial_state))
      ''AutoMLJobSecondaryStatus'' = Inr (PStr ''Failed'')"
    by (simp add: constant_service_def recorded_failed_job_def recorded_failed_job_items_def)
  have c: "''Failed'' = ''Stopped'' \<or> ''Failed'' = ''Failed''"
    by simp
  show ?thesis
    using a b
      halted_job_is_only_printed [of "constant_service recorded_failed_job" initial_state
        "''Failed''" "PStr ''Failed''" FeatureEngineeringCell, OF a b c]
    by (simp add: initial_state_def constant_service_def)
qed



section \<open>Copying the generated notebooks\<close>

text \<open>
  C3. When the description does not contain the key \<open>AutoMLJobArtifacts\<close>, the cell that
  reads the location of the generated notebooks raises KeyError; nothing catches it and
  no value is produced in its place.
\<close>

theorem missing_artifacts_key_raises_KeyError:
  assumes "job s = PDict items" and "map_of items ''AutoMLJobArtifacts'' = None"
  shows "copy_notebooks_cell s = Inl (KeyError ''AutoMLJobArtifacts'')"
  using assms by (simp add: copy_notebooks_cell_def generated_resources_def)

theorem missing_artifacts_key_raises_KeyError_witness:
  "job (initial_state\<lparr>job := recorded_failed_job\<rparr>) = PDict recorded_failed_job_items
   \<and> map_of recorded_failed_job_items ''AutoMLJobArtifacts'' = None
   \<and> copy_notebooks_cell (initial_state\<lparr>job := recorded_failed_job\<rparr>)
       = Inl (KeyError ''AutoMLJobArtifacts'')"
proof -
  have a: "job (initial_state\<lparr>job := recorded_failed_job\<rparr>) = PDict recorded_failed_job_items"
    by (simp add: recorded_failed_job_def)
  have b: "map_of recorded_failed_job_items ''AutoMLJobArtifacts'' = None"
    by (simp add: recorded_failed_job_items_def)
  show ?thesis
    using a b missing_artifacts_key_raises_KeyError [OF a b]
    by simp
qed

section \<open>What each notebook does\<close>



section \<open>The compared status values and the enum of the spec\<close>

lemma in_spec_enum_values:
  "in_spec_enum ''Stopped''" "in_spec_enum ''Failed''" "\<not> in_spec_enum ''InProgress''"
  "in_spec_enum ''AnalyzingData''" "in_spec_enum ''FeatureEngineering''"
  "in_spec_enum ''ModelTuning''"
  by code_simp+

text \<open>
  C6, as the spec states it: every value the control flow compares a status against is a
  member of the enum queued, analyzing, feature-engineering, tuning, failed, stopped,
  completed. The condition of every loop compares the job status with \<open>InProgress\<close>,
  which no name of the enum stands for.
\<close>

theorem InProgress_is_not_in_the_spec_enum:
  "''InProgress'' \<in> set all_compared_values \<and> \<not> in_spec_enum ''InProgress''"
  by (simp add: all_compared_values_def in_spec_enum_values)

text \<open>
  C6, amended: of the values the control flow compares a status against, \<open>Stopped\<close>,
  \<open>Failed\<close>, \<open>AnalyzingData\<close>, \<open>FeatureEngineering\<close> and \<open>ModelTuning\<close> stand for members of
  the enum; the only compared value outside the enum is \<open>InProgress\<close>, once in each of
  the three cells.
\<close>

theorem compared_values_outside_enum:
  "filter (\<lambda>v. \<not> in_spec_enum v) all_compared_values
     = [''InProgress'', ''InProgress'', ''InProgress'']"
  by (simp add: all_compared_values_def in_spec_enum_values)

section \<open>Invoking the endpoint\<close>







section \<open>Labels and features\<close>

lemma labels_and_features_distinct:
  assumes cols: "df_columns data = c0 # rest"
    and uniq: "distinct (map fst (df_columns data))"
  shows "labels_and_features header data =
           Inr (data\<lparr>df_columns :=
                   if header = None
                   then zip (map (\<lambda>n. IntLabel (int n)) [0..<length rest]) (map snd rest)
                   else rest\<rparr>,
                \<lparr>s_name = fst c0, s_index = df_index data, s_values = snd c0\<rparr>)"
proof -
  have labels: "iloc_column data 0 =
      Inr \<lparr>s_name = fst c0, s_index = df_index data, s_values = snd c0\<rparr>"
    using cols by (simp add: iloc_column_def)
  have l0: "column_label data 0 = Inr (fst c0)"
    using cols by (simp add: column_label_def)
  have "fst c0 \<notin> fst ` set rest"
    using cols uniq by simp
  then have "\<forall>c\<in>set rest. fst c \<noteq> fst c0"
    by (metis imageI)
  then have "filter (\<lambda>c. fst c \<noteq> fst c0) rest = rest"
    by (rule filter_True)
  then have dropped: "drop_column (fst c0) data = Inr (data\<lparr>df_columns := rest\<rparr>)"
    using cols by (simp add: drop_column_def)
  show ?thesis
    by (simp add: labels_and_features_def labels l0 dropped set_columns_def Let_def)
qed

text \<open>
  C8. For every table that \<^verbatim>\<open>load_dataset\<close> parses, in either notebook, the labels are
  column 0 of the table, the features are the table without column 0 (one column fewer,
  the same rows in the same order), and with \<^verbatim>\<open>header=None\<close> the names of the feature
  columns are the integers from 0 to the number of feature columns minus 1.

  A parsed table has at least one column and no two columns with the same label:
  \<^verbatim>\<open>read_csv\<close> numbers the columns when there is no header and renames repeated names
  of a header.
\<close>

theorem load_dataset_splits_off_first_column:
  assumes cols: "df_columns data = c0 # rest"
    and uniq: "distinct (map fst (df_columns data))"
    and features: "features = data\<lparr>df_columns :=
        if header = None
        then zip (map (\<lambda>n. IntLabel (int n)) [0..<length rest]) (map snd rest)
        else rest\<rparr>"
    and labels: "labels = \<lparr>s_name = fst c0, s_index = df_index data, s_values = snd c0\<rparr>"
  shows "(read_csv path sep header = Inr data \<longrightarrow>
            load_dataset read_csv path sep header = Inr (features, labels))
       \<and> (read_each read_csv sep header (glob (path @ ''/*.csv'')) = Inr frames
            \<and> concat_frames frames = Inr data \<longrightarrow>
            load_dataset_builtin glob read_csv concat_frames path sep header
              = Inr (features, labels))
       \<and> df_index features = df_index data
       \<and> map snd (df_columns features) = map snd rest
       \<and> length (df_columns features) + 1 = length (df_columns data)
       \<and> (header = None \<longrightarrow>
            map fst (df_columns features) = map (\<lambda>n. IntLabel (int n)) [0..<length rest])
       \<and> (header \<noteq> None \<longrightarrow> df_columns features = rest)"
proof -
  have "labels_and_features header data = Inr (features, labels)"
    unfolding features labels using cols uniq by (rule labels_and_features_distinct)
  then show ?thesis
    by (simp add: load_dataset_def load_dataset_builtin_def cols features)
qed

theorem load_dataset_splits_off_first_column_witness:
  "df_columns \<lparr>df_index = [IntLabel 0, IntLabel 1],
      df_columns = [(IntLabel 0, [1, 0]), (IntLabel 1, [7, 8]), (IntLabel 2, [9, 10 :: int])]\<rparr>
     = (IntLabel 0, [1, 0]) # [(IntLabel 1, [7, 8]), (IntLabel 2, [9, 10])]
   \<and> distinct (map fst [(IntLabel 0, [1, 0]), (IntLabel 1, [7, 8]), (IntLabel 2, [9, 10 :: int])])
   \<and> load_dataset
       (\<lambda>path sep header. Inr \<lparr>df_index = [IntLabel 0, IntLabel 1],
          df_columns = [(IntLabel 0, [1, 0]), (IntLabel 1, [7, 8]), (IntLabel 2, [9, 10 :: int])]\<rparr>)
       ''./data/test.csv'' '','' None
     = Inr (\<lparr>df_index = [IntLabel 0, IntLabel 1],
              df_columns = [(IntLabel 0, [7, 8]), (IntLabel 1, [9, 10])]\<rparr>,
            \<lparr>s_name = IntLabel 0, s_index = [IntLabel 0, IntLabel 1], s_values = [1, 0]\<rparr>)"
proof -
  let ?data = "\<lparr>df_index = [IntLabel 0, IntLabel 1],
      df_columns = [(IntLabel 0, [1, 0]), (IntLabel 1, [7, 8]), (IntLabel 2, [9, 10 :: int])]\<rparr>"
  let ?features = "\<lparr>df_index = [IntLabel 0, IntLabel 1],
      df_columns = [(IntLabel 0, [7, 8]), (IntLabel 1, [9, 10 :: int])]\<rparr>"
  let ?labels = "\<lparr>s_name = IntLabel 0, s_index = [IntLabel 0, IntLabel 1],
      s_values = [1, 0 :: int]\<rparr>"
  have a: "df_columns ?data
      = (IntLabel 0, [1, 0]) # [(IntLabel 1, [7, 8]), (IntLabel 2, [9, 10])]"
    by simp
  have b: "distinct (map fst (df_columns ?data))"
    by simp
  have c: "?features = ?data\<lparr>df_columns :=
      if (None :: nat option) = None
      then zip (map (\<lambda>n. IntLabel (int n))
                  [0..<length [(IntLabel 1, [7, 8]), (IntLabel 2, [9, 10 :: int])]])
             (map snd [(IntLabel 1, [7, 8]), (IntLabel 2, [9, 10 :: int])])
      else [(IntLabel 1, [7, 8]), (IntLabel 2, [9, 10])]\<rparr>"
    by (simp add: upt_rec)
  have d: "?labels = \<lparr>s_name = fst (IntLabel 0, [1, 0 :: int]), s_index = df_index ?data,
      s_values = snd (IntLabel 0, [1, 0 :: int])\<rparr>"
    by simp
  show ?thesis
    using load_dataset_splits_off_first_column
      [OF a b c d, of "\<lambda>path sep header. Inr ?data" "''./data/test.csv''" "'',''"]
    by simp
qed

section \<open>Probabilities to classes\<close>

text \<open>
  C9. Binarising the predictions is elementwise: element \<open>i\<close> of the result is 1 if
  element \<open>i\<close> of the predictions is greater than 0.5 and 0 otherwise, the result has the
  shape of the predictions, and a prediction equal to 0.5 gives class 0.
\<close>

theorem binarising_is_elementwise:
  "length (preds_test_0_or_1 preds_test) = length preds_test
   \<and> (\<forall>i<length preds_test.
         preds_test_0_or_1 preds_test ! i
           = (if np_greater (preds_test ! i) (Finite 0.5) then 1 else 0)
         \<and> (\<forall>x. preds_test ! i = Finite x \<longrightarrow>
               preds_test_0_or_1 preds_test ! i = (if x > 0.5 then 1 else 0)))
   \<and> preds_test_0_or_1 [Finite 0.5] = [0]"
  by (simp add: preds_test_0_or_1_def)

theorem binarising_is_elementwise_witness:
  "(2::nat) < length [Finite 0.7, NaN, Finite 0.5, Finite 0.2]
   \<and> [Finite 0.7, NaN, Finite 0.5, Finite 0.2] ! 2 = Finite 0.5
   \<and> preds_test_0_or_1 [Finite 0.7, NaN, Finite 0.5, Finite 0.2] ! 2 = 0
   \<and> length (preds_test_0_or_1 [Finite 0.7, NaN, Finite 0.5, Finite 0.2]) = 4"
  using binarising_is_elementwise [of "[Finite 0.7, NaN, Finite 0.5, Finite 0.2]"]
  by simp

end
